theory Spec2Isabelle
  imports Complex_Main
begin

section \<open>Wisteria CTR Studio: sampler, HTTP layer and provider clients\<close>

text \<open>
  A shallow embedding of the Python sources. Python floats are modelled as exact
  rationals (type \<open>rat\<close>): rounding error, infinities and NaN are outside the model.
  Python ints are \<open>int\<close>. Every \<^verbatim>\<open>raise\<close> is a value \<open>Inl e\<close> of a sum type.
\<close>

subsection \<open>Exceptions\<close>

datatype py_error =
    ValueError string
  | KeyError string
  | IndexError string
  | ImportError string
  | OtherException string

subsection \<open>api.py: compute_ctr\<close>

text \<open>
  \<^verbatim>\<open>sum(1 for x in clicks if x)\<close>: the generator yields a 1 for every truthy entry
  (a non-zero int), and \<^verbatim>\<open>sum\<close> adds them up from 0, left to right.
\<close>

fun count_truthy :: "int \<Rightarrow> int list \<Rightarrow> int" where
  "count_truthy acc [] = acc"
| "count_truthy acc (x # xs) = count_truthy (if x \<noteq> 0 then acc + 1 else acc) xs"

definition compute_ctr :: "int list \<Rightarrow> rat" where
  "compute_ctr clicks =
     (if clicks = [] then 0
      else of_int (count_truthy 0 clicks) / of_nat (length clicks))"

subsection \<open>Rounding\<close>

text \<open>
  \<^verbatim>\<open>round(x)\<close> of Python 3 rounds half to even; \<^verbatim>\<open>round(x, n)\<close> does so at the
  \<open>n\<close>-th decimal (on the exact value here, on the binary float in Python).
\<close>

definition py_round :: "rat \<Rightarrow> int" where
  "py_round x =
     (let f = \<lfloor>x\<rfloor>; d = x - of_int f in
      if d < 1 / 2 then f else if 1 / 2 < d then f + 1 else if even f then f else f + 1)"

definition py_round_ndigits :: "rat \<Rightarrow> nat \<Rightarrow> rat" where
  "py_round_ndigits x n = of_int (py_round (x * 10 ^ n)) / 10 ^ n"

subsection \<open>sampler.py: the generator\<close>

text \<open>
  The generator \<^verbatim>\<open>random.Random\<close> is a parameter: a state and the operations the
  sampler uses on it, each returning its value and the next state.
  \<^verbatim>\<open>rng.choice(seq)\<close> is \<^verbatim>\<open>seq[rng._randbelow(len(seq))]\<close>. \<open>rng_seed\<close> is
  \<^verbatim>\<open>random.Random(seed)\<close> for an int seed. The model puts no bound on the values
  the operations return.
\<close>

record 's rng_ops =
  rng_random :: "'s \<Rightarrow> rat \<times> 's"
  rng_gauss :: "rat \<Rightarrow> rat \<Rightarrow> 's \<Rightarrow> rat \<times> 's"
  rng_randbelow :: "nat \<Rightarrow> 's \<Rightarrow> nat \<times> 's"
  rng_seed :: "int \<Rightarrow> 's"

text \<open>\<^verbatim>\<open>seq[i]\<close>: a negative index counts from the end, an index out of range raises.\<close>

definition py_index :: "'a list \<Rightarrow> int \<Rightarrow> py_error + 'a" where
  "py_index xs i =
     (if 0 \<le> i \<and> i < int (length xs) then Inr (xs ! nat i)
      else if i < 0 \<and> - int (length xs) \<le> i then Inr (xs ! nat (int (length xs) + i))
      else Inl (IndexError ''list index out of range''))"

definition rng_choice :: "'s rng_ops \<Rightarrow> 'a list \<Rightarrow> 's \<Rightarrow> py_error + ('a \<times> 's)" where
  "rng_choice R xs rng =
     (case rng_randbelow R (length xs) rng of
        (i, rng') \<Rightarrow>
          (case py_index xs (int i) of Inl e \<Rightarrow> Inl e | Inr x \<Rightarrow> Inr (x, rng')))"

subsection \<open>sampler.py: weighted choice\<close>

text \<open>
  The loop of \<^verbatim>\<open>_weighted_choice\<close>: \<open>cum\<close> (the source's \<^verbatim>\<open>upto\<close>) accumulates the
  weights, \<open>i\<close> is the index of \<^verbatim>\<open>enumerate\<close>; \<open>None\<close> is the loop running to its
  end without a return.
\<close>

fun weighted_loop :: "rat \<Rightarrow> rat \<Rightarrow> int \<Rightarrow> rat list \<Rightarrow> int option" where
  "weighted_loop r cum i [] = None"
| "weighted_loop r cum i (w # ws) =
     (if r \<le> cum + w then Some i else weighted_loop r (cum + w) (i + 1) ws)"

text \<open>\<^verbatim>\<open>sum(weights)\<close> adds from 0, left to right.\<close>

definition weighted_choice :: "'s rng_ops \<Rightarrow> rat list \<Rightarrow> 's \<Rightarrow> py_error + (int \<times> 's)" where
  "weighted_choice R weights rng =
     (let total = foldl (+) 0 weights in
      if total \<le> 0 then Inl (ValueError ''Sum of weights must be positive'')
      else
        (case rng_random R rng of
           (u, rng') \<Rightarrow>
             (case weighted_loop (u * total) 0 0 weights of
                Some i \<Rightarrow> Inr (i, rng')
              | None \<Rightarrow> Inr (int (length weights) - 1, rng'))))"

subsection \<open>sampler.py: the identity bank and its samplers\<close>

text \<open>
  The identity bank is the parsed JSON file. Each configuration is given the shape its
  sampler's docstring describes; an optional key is an \<open>option\<close>, a missing list reads
  as the empty list (\<^verbatim>\<open>cfg.get("values", [])\<close>).
\<close>

datatype categorical_cfg =
  Categorical (cat_values: "string list") (cat_probs: "rat list option")

datatype int_normal_cfg =
  IntNormal (n_mean: "rat option") (n_std: "rat option") (n_min: "rat option")
    (n_max: "rat option")

datatype bucket = Bucket (b_min: "rat option") (b_max: "rat option") (b_weight: "rat option")

datatype float_bucketed_cfg = FloatBucketed (cfg_buckets: "bucket list")

datatype region_item = RegionItem (item_city: "string option") (item_state: "string option")

datatype region_cfg = Region (region_values: "region_item list")

datatype bool_cfg = BoolCfg (p_true: "rat option")

datatype health_cfg = HealthCfg (h_p_true: "rat option") (h_values: "string list")

text \<open>A key the bank lacks is \<open>None\<close>: \<^verbatim>\<open>bank["gender"]\<close> raises KeyError then.\<close>

record identity_bank =
  bank_gender :: "categorical_cfg option"
  bank_age :: "int_normal_cfg option"
  bank_region :: "region_cfg option"
  bank_occupation :: "categorical_cfg option"
  bank_annual_salary :: "float_bucketed_cfg option"
  bank_liability_status :: "float_bucketed_cfg option"
  bank_is_married :: "bool_cfg option"
  bank_health_status :: "health_cfg option"

definition bank_get :: "'a option \<Rightarrow> string \<Rightarrow> py_error + 'a" where
  "bank_get v k = (case v of None \<Rightarrow> Inl (KeyError k) | Some c \<Rightarrow> Inr c)"

definition get_default :: "'a option \<Rightarrow> 'a \<Rightarrow> 'a" where
  "get_default v d = (case v of None \<Rightarrow> d | Some x \<Rightarrow> x)"

definition sample_categorical ::
  "'s rng_ops \<Rightarrow> categorical_cfg \<Rightarrow> 's \<Rightarrow> py_error + (string \<times> 's)" where
  "sample_categorical R cfg rng =
     (let values = cat_values cfg; probs = cat_probs cfg in
      if values = [] then Inl (ValueError ''categorical values empty'')
      else
        (case probs of
           None \<Rightarrow> rng_choice R values rng
         | Some ps \<Rightarrow>
             if length values \<noteq> length ps then
               Inl (ValueError ''values and probs length mismatch'')
             else
               (case weighted_choice R ps rng of
                  Inl e \<Rightarrow> Inl e
                | Inr (idx, rng') \<Rightarrow>
                    (case py_index values idx of
                       Inl e \<Rightarrow> Inl e
                     | Inr v \<Rightarrow> Inr (v, rng')))))"

text \<open>
  The rejection loop of \<^verbatim>\<open>_sample_int_normal\<close>, \<open>k\<close> draws left: \<open>None\<close> when none of
  them fell within the bounds.
\<close>

fun rejection_loop ::
  "'s rng_ops \<Rightarrow> rat \<Rightarrow> rat \<Rightarrow> rat \<Rightarrow> rat \<Rightarrow> nat \<Rightarrow> 's \<Rightarrow> int option \<times> 's" where
  "rejection_loop R mean std vmin vmax 0 rng = (None, rng)"
| "rejection_loop R mean std vmin vmax (Suc k) rng =
     (case rng_gauss R mean std rng of
        (x, rng') \<Rightarrow>
          if vmin \<le> x \<and> x \<le> vmax then (Some (py_round x), rng')
          else rejection_loop R mean std vmin vmax k rng')"

definition sample_int_normal :: "'s rng_ops \<Rightarrow> int_normal_cfg \<Rightarrow> 's \<Rightarrow> int \<times> 's" where
  "sample_int_normal R cfg rng =
     (let mean = get_default (n_mean cfg) 40; std = get_default (n_std cfg) 12;
          vmin = get_default (n_min cfg) 0; vmax = get_default (n_max cfg) 120
      in
      case rejection_loop R mean std vmin vmax 8 rng of
        (Some v, rng') \<Rightarrow> (v, rng')
      | (None, rng') \<Rightarrow>
          (case rng_gauss R mean std rng' of
             (g, rng'') \<Rightarrow> (py_round (max vmin (min vmax g)), rng'')))"

definition sample_float_bucketed ::
  "'s rng_ops \<Rightarrow> float_bucketed_cfg \<Rightarrow> 's \<Rightarrow> py_error + (rat \<times> 's)" where
  "sample_float_bucketed R cfg rng =
     (let buckets = cfg_buckets cfg in
      if buckets = [] then Inl (ValueError ''float_bucketed requires 'buckets' '')
      else
        (case weighted_choice R (map (\<lambda>b. get_default (b_weight b) 1) buckets) rng of
           Inl e \<Rightarrow> Inl e
         | Inr (idx, rng') \<Rightarrow>
             (case py_index buckets idx of
                Inl e \<Rightarrow> Inl e
              | Inr b \<Rightarrow>
                  let vmin0 = get_default (b_min b) 0;
                      vmax0 = get_default (b_max b) vmin0;
                      vmin = (if vmax0 < vmin0 then vmax0 else vmin0);
                      vmax = (if vmax0 < vmin0 then vmin0 else vmax0)
                  in
                  (case rng_random R rng' of
                     (u, rng'') \<Rightarrow> Inr (u * (vmax - vmin) + vmin, rng'')))))"

definition sample_region :: "'s rng_ops \<Rightarrow> region_cfg \<Rightarrow> 's \<Rightarrow> py_error + (string \<times> 's)" where
  "sample_region R cfg rng =
     (let values = region_values cfg in
      if values = [] then Inl (ValueError ''region.values empty'')
      else
        (case rng_choice R values rng of
           Inl e \<Rightarrow> Inl e
         | Inr (item, rng') \<Rightarrow>
             let city = get_default (item_city item) ''Unknown'';
                 state = get_default (item_state item) []
             in
             if state \<noteq> [] then Inr (city @ '', '' @ state, rng') else Inr (city, rng')))"

definition sample_bool :: "'s rng_ops \<Rightarrow> rat option \<Rightarrow> 's \<Rightarrow> bool \<times> 's" where
  "sample_bool R p rng =
     (case rng_random R rng of (u, rng') \<Rightarrow> (u < get_default p (1 / 2), rng'))"

text \<open>\<^verbatim>\<open>str.lower\<close> on ASCII letters.\<close>

definition py_lower :: "string \<Rightarrow> string" where
  "py_lower s =
     map (\<lambda>c. let n = (of_char c :: nat) in
               if 65 \<le> n \<and> n \<le> 90 then char_of (n + 32) else c) s"

definition sample_health ::
  "'s rng_ops \<Rightarrow> health_cfg \<Rightarrow> 's \<Rightarrow> py_error + ((bool \<times> string option) \<times> 's)" where
  "sample_health R cfg rng =
     (case sample_bool R (h_p_true cfg) rng of
        (has_condition, rng') \<Rightarrow>
          if has_condition then
            (let values = filter (\<lambda>v. py_lower v \<noteq> ''none'') (h_values cfg) in
             if values \<noteq> [] then
               (case rng_choice R values rng' of
                  Inl e \<Rightarrow> Inl e
                | Inr (v, rng'') \<Rightarrow> Inr ((has_condition, Some v), rng''))
             else Inr ((has_condition, None), rng'))
          else Inr ((has_condition, None), rng'))"

text \<open>
  An identity: the dict \<^verbatim>\<open>sample_identity\<close> builds; the key \<^verbatim>\<open>illness\<close> is present
  only for a truthy illness of an unhealthy identity.
\<close>

record identity =
  gender :: string
  age :: int
  region :: string
  occupation :: string
  annual_salary :: rat
  liability_status :: rat
  is_married :: bool
  health_status :: bool
  illness :: "string option"

text \<open>
  Sequencing of statements that may raise: the first exception ends the function.
\<close>

definition and_then :: "py_error + 'a \<Rightarrow> ('a \<Rightarrow> py_error + 'b) \<Rightarrow> py_error + 'b" where
  "and_then m f = (case m of Inl e \<Rightarrow> Inl e | Inr x \<Rightarrow> f x)"

definition sample_identity ::
  "'s rng_ops \<Rightarrow> identity_bank \<Rightarrow> 's \<Rightarrow> py_error + (identity \<times> 's)" where
  "sample_identity R bank rng0 =
     and_then (bank_get (bank_gender bank) ''gender'') (\<lambda>c1.
     and_then (sample_categorical R c1 rng0) (\<lambda>(g, rng1).
     and_then (bank_get (bank_age bank) ''age'') (\<lambda>c2.
     and_then (Inr (sample_int_normal R c2 rng1)) (\<lambda>(a, rng2).
     and_then (bank_get (bank_region bank) ''region'') (\<lambda>c3.
     and_then (sample_region R c3 rng2) (\<lambda>(r, rng3).
     and_then (bank_get (bank_occupation bank) ''occupation'') (\<lambda>c4.
     and_then (sample_categorical R c4 rng3) (\<lambda>(oc, rng4).
     and_then (bank_get (bank_annual_salary bank) ''annual_salary'') (\<lambda>c5.
     and_then (sample_float_bucketed R c5 rng4) (\<lambda>(sal, rng5).
     and_then (bank_get (bank_liability_status bank) ''liability_status'') (\<lambda>c6.
     and_then (sample_float_bucketed R c6 rng5) (\<lambda>(li, rng6).
     and_then (bank_get (bank_is_married bank) ''is_married'') (\<lambda>c7.
     and_then (Inr (sample_bool R (p_true c7) rng6)) (\<lambda>(m, rng7).
     and_then (bank_get (bank_health_status bank) ''health_status'') (\<lambda>c8.
     and_then (sample_health R c8 rng7) (\<lambda>((h, ill), rng8).
       Inr (\<lparr>gender = g, age = a, region = r, occupation = oc,
             annual_salary = py_round_ndigits sal 2,
             liability_status = py_round_ndigits li 2,
             is_married = m, health_status = h,
             illness = (if h \<and> ill \<noteq> None \<and> ill \<noteq> Some [] then ill else None)\<rparr>,
            rng8)))))))))))))))))"

text \<open>
  The list comprehension of \<^verbatim>\<open>sample_identities\<close>, \<open>k\<close> identities left to sample;
  the first exception ends it.
\<close>

fun sample_loop ::
  "'s rng_ops \<Rightarrow> identity_bank \<Rightarrow> nat \<Rightarrow> 's \<Rightarrow> py_error + identity list" where
  "sample_loop R bank 0 rng = Inr []"
| "sample_loop R bank (Suc k) rng =
     (case sample_identity R bank rng of
        Inl e \<Rightarrow> Inl e
      | Inr (ident, rng') \<Rightarrow>
          (case sample_loop R bank k rng' of
             Inl e \<Rightarrow> Inl e
           | Inr idents \<Rightarrow> Inr (ident # idents)))"

text \<open>
  \<^verbatim>\<open>random.Random(seed)\<close>: an int seed fixes the state; with \<open>seed=None\<close> the state
  comes from the operating system's entropy (or the clock), here the argument
  \<open>entropy\<close>: the state that source yields at this call. \<^verbatim>\<open>range(n)\<close> is empty for
  a negative \<open>n\<close>.
\<close>

definition sample_identities ::
  "'s rng_ops \<Rightarrow> 's \<Rightarrow> int \<Rightarrow> identity_bank \<Rightarrow> int option \<Rightarrow> py_error + identity list" where
  "sample_identities R entropy n bank seed =
     (let rng = (case seed of None \<Rightarrow> entropy | Some k \<Rightarrow> rng_seed R k) in
      sample_loop R bank (nat n) rng)"

subsection \<open>api.py: request validation and the predict-ctr endpoint\<close>

text \<open>
  \<^verbatim>\<open>str(e)\<close> of an exception: its message; a KeyError shows the repr of its key.
\<close>

fun py_str :: "py_error \<Rightarrow> string" where
  "py_str (ValueError m) = m"
| "py_str (KeyError k) = [CHR 0x27] @ k @ [CHR 0x27]"
| "py_str (IndexError m) = m"
| "py_str (ImportError m) = m"
| "py_str (OtherException m) = m"

text \<open>
  \<^verbatim>\<open>a or d\<close> for an optional string \<open>a\<close>: \<open>None\<close> and the empty string are falsy.
\<close>

definition or_default :: "string option \<Rightarrow> string \<Rightarrow> string" where
  "or_default a d = (case a of None \<Rightarrow> d | Some s \<Rightarrow> if s = [] then d else s)"

text \<open>The fields of \<^verbatim>\<open>CTRRequest\<close>, after pydantic has accepted the request.\<close>

record ctr_request =
  req_ad_text :: string
  req_ad_platform :: string
  req_population_size :: int
  req_seed :: "int option"
  req_provider :: string
  req_model :: "string option"
  req_batch_size :: int
  req_use_mock :: bool
  req_use_sync :: bool
  req_api_key :: "string option"
  req_identity_bank_path :: "string option"

datatype http_exception = HTTPException (status_code: nat) (detail: string)

definition DEFAULT_IDENTITY_BANK_PATH :: string where
  "DEFAULT_IDENTITY_BANK_PATH = ''data/identity_bank.json''"

definition AVAILABLE_PROVIDERS :: "string list" where
  "AVAILABLE_PROVIDERS = [''openai'', ''deepseek'']"

definition AVAILABLE_PLATFORMS :: "string list" where
  "AVAILABLE_PLATFORMS = [''facebook'', ''tiktok'', ''amazon'']"

definition validate_request :: "ctr_request \<Rightarrow> http_exception + unit" where
  "validate_request request =
     (if req_ad_platform request \<notin> set AVAILABLE_PLATFORMS then
        Inl (HTTPException 400
          ''Invalid ad_platform. Must be one of: ['facebook', 'tiktok', 'amazon']'')
      else if req_provider request \<notin> set AVAILABLE_PROVIDERS then
        Inl (HTTPException 400
          ''Invalid provider. Must be one of: ['openai', 'deepseek']'')
      else Inr ())"

definition get_default_model :: "string \<Rightarrow> string" where
  "get_default_model provider =
     (case map_of [(''openai'', ''gpt-4o-mini''), (''deepseek'', ''deepseek-chat'')] provider of
        Some m \<Rightarrow> m
      | None \<Rightarrow> ''gpt-4o-mini'')"

text \<open>
  The arguments \<^verbatim>\<open>predict_ctr\<close> gives to \<^verbatim>\<open>LLMClickPredictor\<close>.
\<close>

record predictor_args =
  pa_provider :: string
  pa_model :: string
  pa_batch_size :: int
  pa_use_mock :: bool
  pa_use_async :: bool
  pa_api_key :: "string option"

text \<open>
  What \<^verbatim>\<open>predict_ctr\<close> calls outside itself is a parameter of its model: the file
  system (\<^verbatim>\<open>os.path.exists\<close>, \<^verbatim>\<open>load_identity_bank\<close>), the sampler and the
  predictor (its construction and \<^verbatim>\<open>predict_clicks\<close>). Each may raise.
\<close>

record ('b, 'p) api_env =
  path_exists :: "string \<Rightarrow> bool"
  load_identity_bank :: "string \<Rightarrow> py_error + 'b"
  env_sample_identities :: "int \<Rightarrow> 'b \<Rightarrow> int option \<Rightarrow> py_error + 'p list"
  env_predict_clicks :: "predictor_args \<Rightarrow> string \<Rightarrow> 'p list \<Rightarrow> string \<Rightarrow> py_error + int list"

text \<open>The collaborators a request has reached, in order.\<close>

datatype stage = LoadBank string | SampleIdentities int | PredictClicks

text \<open>
  The fields of \<^verbatim>\<open>CTRResponse\<close> that the request and the decisions determine; the
  clock fields (\<^verbatim>\<open>runtime_seconds\<close>, \<^verbatim>\<open>timestamp\<close>) are left out, and so are the
  per-identity details (\<^verbatim>\<open>include_details\<close> is False, its default).
\<close>

record ctr_response =
  success :: bool
  ctr :: rat
  total_clicks :: int
  total_identities :: nat
  provider_used :: string
  model_used :: string
  processing_mode :: string
  resp_ad_platform :: string

definition internal_error :: "py_error \<Rightarrow> http_exception" where
  "internal_error e = HTTPException 500 (''Internal server error: '' @ py_str e)"

definition predict_ctr ::
  "('b, 'p) api_env \<Rightarrow> ctr_request \<Rightarrow> stage list \<times> (http_exception + ctr_response)" where
  "predict_ctr E request =
     (case validate_request request of
        Inl h \<Rightarrow> ([], Inl h)
      | Inr _ \<Rightarrow>
          let identity_bank_path =
                or_default (req_identity_bank_path request) DEFAULT_IDENTITY_BANK_PATH
          in
          if \<not> path_exists E identity_bank_path then
            ([], Inl (HTTPException 400
                   (''Identity bank file not found: '' @ identity_bank_path)))
          else
            (case load_identity_bank E identity_bank_path of
               Inl e \<Rightarrow> ([LoadBank identity_bank_path], Inl (internal_error e))
             | Inr bank \<Rightarrow>
                 (case env_sample_identities E (req_population_size request) bank (req_seed request) of
                    Inl e \<Rightarrow>
                      ([LoadBank identity_bank_path,
                        SampleIdentities (req_population_size request)],
                       Inl (internal_error e))
                  | Inr identities \<Rightarrow>
                      let model =
                            or_default (req_model request)
                              (get_default_model (req_provider request));
                          stages =
                            [LoadBank identity_bank_path,
                             SampleIdentities (req_population_size request),
                             PredictClicks]
                      in
                      (case env_predict_clicks E
                              \<lparr>pa_provider = req_provider request, pa_model = model,
                               pa_batch_size = req_batch_size request,
                               pa_use_mock = req_use_mock request,
                               pa_use_async = (\<not> req_use_sync request),
                               pa_api_key = req_api_key request\<rparr>
                              (req_ad_text request) identities (req_ad_platform request) of
                         Inl e \<Rightarrow> (stages, Inl (internal_error e))
                       | Inr clicks \<Rightarrow>
                           (stages,
                            Inr \<lparr>success = True,
                                 ctr = py_round_ndigits (compute_ctr clicks) 4,
                                 total_clicks = sum_list clicks,
                                 total_identities = length identities,
                                 provider_used =
                                   (if \<not> req_use_mock request then req_provider request
                                    else ''mock''),
                                 model_used =
                                   (if \<not> req_use_mock request then model
                                    else ''mock model (no LLM)''),
                                 processing_mode =
                                   (if req_use_sync request then ''synchronous sequential''
                                    else ''asynchronous parallel''),
                                 resp_ad_platform = req_ad_platform request\<rparr>)))))"

subsection \<open>Provider clients: openai_client.py and deepseek_client.py\<close>

text \<open>
  A chat message is a dict with the keys \<^verbatim>\<open>role\<close> and \<^verbatim>\<open>content\<close>, in that order.
\<close>

type_synonym message = "(string \<times> string) list"

definition OpenAIClient_create_messages :: "string \<Rightarrow> message list" where
  "OpenAIClient_create_messages prompt =
     [[(''role'', ''system''),
       (''content'', ''You are a precise decision engine that outputs strict JSON.'')],
      [(''role'', ''user''), (''content'', prompt)]]"

definition DeepSeekClient_create_messages :: "string \<Rightarrow> message list" where
  "DeepSeekClient_create_messages prompt =
     [[(''role'', ''system''),
       (''content'', ''You are a precise decision engine that outputs strict JSON.'')],
      [(''role'', ''user''), (''content'', prompt)]]"

text \<open>
  A call to the vendor SDK with the keyword arguments the source passes: an argument
  the source does not pass is \<open>None\<close>, and the SDK's default applies to it.
  \<^verbatim>\<open>client.chat.completions.create(model, messages, temperature, stream)\<close> and
  \<^verbatim>\<open>client.responses.create(model, input)\<close>.
\<close>

datatype api_call =
    ChatCompletions "string option" "message list" "rat option" "bool option"
  | Responses "string option" string

fun call_temperature :: "api_call \<Rightarrow> rat option" where
  "call_temperature (ChatCompletions m msgs t s) = t"
| "call_temperature (Responses m inp) = None"

fun call_stream :: "api_call \<Rightarrow> bool option" where
  "call_stream (ChatCompletions m msgs t s) = s"
| "call_stream (Responses m inp) = None"

text \<open>
  The vendor SDK (the \<^verbatim>\<open>openai\<close> package) is a parameter: importing and
  constructing a client from a key and a base URL, and the two endpoints; each
  returns or raises. A chat completion returns the message contents of its choices,
  the responses endpoint its \<^verbatim>\<open>output_text\<close>.
\<close>

record 'c sdk =
  sdk_construct :: "string option \<Rightarrow> string option \<Rightarrow> py_error + 'c"
  sdk_chat_create :: "'c \<Rightarrow> api_call \<Rightarrow> py_error + string list"
  sdk_responses_create :: "'c \<Rightarrow> api_call \<Rightarrow> py_error + string"

text \<open>
  What a call of \<^verbatim>\<open>predict_chunk\<close> does besides returning its decisions, in order:
  constructing a vendor client (with the key and base URL given), an API call, a
  fallback to the mock with its reason, handing a content to the response parser.
\<close>

datatype event =
    ClientInit "string option" "string option"
  | ApiCall api_call
  | Fallback string
  | ParseResponse string string

text \<open>
  The state of a client object. Modelled from the spec: \<^verbatim>\<open>BaseLLMClient.__init__\<close>
  (base_client.py is not among the sources) stores the model and the key override.
\<close>

record llm_client =
  model :: "string option"
  api_key :: "string option"
  provider_name :: string
  env_key_name :: string
  base_url :: "string option"

type_synonym environ = "string \<Rightarrow> string option"

definition OpenAIClient_init :: "string option \<Rightarrow> string option \<Rightarrow> llm_client" where
  "OpenAIClient_init m k =
     \<lparr>model = m, api_key = k, provider_name = ''openai'',
      env_key_name = ''OPENAI_API_KEY'', base_url = None\<rparr>"

definition DeepSeekClient_init :: "environ \<Rightarrow> string option \<Rightarrow> string option \<Rightarrow> llm_client" where
  "DeepSeekClient_init env m k =
     \<lparr>model = m, api_key = k, provider_name = ''deepseek'',
      env_key_name = ''DEEPSEEK_API_KEY'',
      base_url =
        Some (case env ''DEEPSEEK_API_BASE'' of
                None \<Rightarrow> ''https://api.deepseek.com'' | Some u \<Rightarrow> u)\<rparr>"

text \<open>\<^verbatim>\<open>self.api_key or os.getenv(self.env_key_name)\<close>.\<close>

definition resolve_key :: "environ \<Rightarrow> llm_client \<Rightarrow> string option" where
  "resolve_key env self =
     (case api_key self of
        None \<Rightarrow> env (env_key_name self)
      | Some k \<Rightarrow> if k = [] then env (env_key_name self) else Some k)"

text \<open>
  The collaborators of the base class that are not among the sources, as parameters:
  the Mock Oracle, the Prompt Builder and the search for a JSON array of integers in
  a model output.
\<close>

record 'p base =
  mock_decide :: "string \<Rightarrow> 'p \<Rightarrow> int"
  build_prompt :: "string \<Rightarrow> 'p list \<Rightarrow> string \<Rightarrow> string"
  locate_array :: "string \<Rightarrow> int list option"

text \<open>
  Modelled from the spec: \<^verbatim>\<open>has_api_key\<close> of base_client.py. The spec: the credential
  is the explicit override, else the environment variable named by the provider; a
  provider is usable only if a non-empty credential is resolvable.
\<close>

definition has_api_key :: "environ \<Rightarrow> llm_client \<Rightarrow> bool" where
  "has_api_key env self =
     (case resolve_key env self of None \<Rightarrow> False | Some k \<Rightarrow> k \<noteq> [])"

text \<open>
  Modelled from the spec: \<^verbatim>\<open>_fallback_to_mock\<close> of base_client.py. The spec: the
  batch is served entirely by the Mock Oracle, and the reason is recorded.
\<close>

definition fallback_to_mock :: "'p base \<Rightarrow> string \<Rightarrow> 'p list \<Rightarrow> string \<Rightarrow> event list \<times> int list" where
  "fallback_to_mock B ad_text chunk reason =
     ([Fallback reason], map (mock_decide B ad_text) chunk)"

text \<open>
  Modelled from the spec: \<^verbatim>\<open>_parse_and_validate_response\<close> of base_client.py. The
  spec (4.3): locate a JSON array of integers in the text; coerce each element to 0 or
  1 (non-zero is 1); truncate an array longer than the batch, right-pad a shorter one
  with the Mock Oracle's decisions for the missing profiles; with no array at all the
  whole batch falls back to the Mock Oracle, tagged "response malformed".
\<close>

definition parse_and_validate_response ::
  "'p base \<Rightarrow> string \<Rightarrow> 'p list \<Rightarrow> string \<Rightarrow> string \<Rightarrow> event list \<times> int list" where
  "parse_and_validate_response B content chunk ad_text tag =
     (case locate_array B content of
        None \<Rightarrow>
          (case fallback_to_mock B ad_text chunk (tag @ '' response malformed'') of
             (evs, ds) \<Rightarrow> (ParseResponse content tag # evs, ds))
      | Some arr \<Rightarrow>
          let ds = map (\<lambda>v. if v \<noteq> 0 then 1 else 0) arr in
          ([ParseResponse content tag],
           take (length chunk) ds @ map (mock_decide B ad_text) (drop (length ds) chunk)))"

text \<open>Events that happened before a helper was called come first in the trace.\<close>

definition after :: "event list \<Rightarrow> event list \<times> int list \<Rightarrow> event list \<times> int list" where
  "after evs r = (evs @ fst r, snd r)"

text \<open>\<^verbatim>\<open>response.choices[0].message.content\<close>: an empty list of choices raises.\<close>

definition first_content :: "py_error + string list \<Rightarrow> py_error + string" where
  "first_content r =
     (case r of
        Inl e \<Rightarrow> Inl e
      | Inr [] \<Rightarrow> Inl (IndexError ''list index out of range'')
      | Inr (c # cs) \<Rightarrow> Inr c)"

text \<open>
  \<^verbatim>\<open>_get_client\<close> and \<^verbatim>\<open>_get_async_client\<close>: whatever the import or the constructor
  raises is raised again as an ImportError. The sync and the async SDK have the same
  interface; which one \<open>S\<close> stands for is the caller's choice.
\<close>

definition OpenAIClient_get_client :: "'c sdk \<Rightarrow> environ \<Rightarrow> llm_client \<Rightarrow> py_error + 'c" where
  "OpenAIClient_get_client S env self =
     (case sdk_construct S (resolve_key env self) None of
        Inl e \<Rightarrow> Inl (ImportError (''OpenAI import failed: '' @ py_str e))
      | Inr c \<Rightarrow> Inr c)"

definition OpenAIClient_get_async_client :: "'c sdk \<Rightarrow> environ \<Rightarrow> llm_client \<Rightarrow> py_error + 'c" where
  "OpenAIClient_get_async_client S env self =
     (case sdk_construct S (resolve_key env self) None of
        Inl e \<Rightarrow> Inl (ImportError (''AsyncOpenAI import failed: '' @ py_str e))
      | Inr c \<Rightarrow> Inr c)"

definition DeepSeekClient_get_client :: "'c sdk \<Rightarrow> environ \<Rightarrow> llm_client \<Rightarrow> py_error + 'c" where
  "DeepSeekClient_get_client S env self =
     (case sdk_construct S (resolve_key env self) (base_url self) of
        Inl e \<Rightarrow> Inl (ImportError (''OpenAI import failed: '' @ py_str e))
      | Inr c \<Rightarrow> Inr c)"

definition DeepSeekClient_get_async_client :: "'c sdk \<Rightarrow> environ \<Rightarrow> llm_client \<Rightarrow> py_error + 'c" where
  "DeepSeekClient_get_async_client S env self =
     (case sdk_construct S (resolve_key env self) (base_url self) of
        Inl e \<Rightarrow> Inl (ImportError (''AsyncOpenAI import failed: '' @ py_str e))
      | Inr c \<Rightarrow> Inr c)"

text \<open>
  \<^verbatim>\<open>OpenAIClient.predict_chunk\<close>. The second argument of an \<open>Inl\<close> branch below is
  the handler the source's \<^verbatim>\<open>except\<close> clauses select.
\<close>

definition OpenAIClient_predict_chunk ::
  "'p base \<Rightarrow> 'c sdk \<Rightarrow> environ \<Rightarrow> llm_client \<Rightarrow> string \<Rightarrow> 'p list \<Rightarrow> string
     \<Rightarrow> event list \<times> int list" where
  "OpenAIClient_predict_chunk B S env self ad_text chunk ad_platform =
     (let init = ClientInit (resolve_key env self) None in
      case OpenAIClient_get_client S env self of
        Inl (ImportError m) \<Rightarrow>
          after [init] (fallback_to_mock B ad_text chunk ''OpenAI import failed'')
      | Inl e \<Rightarrow>
          after [init] (fallback_to_mock B ad_text chunk ''OpenAI client init failed'')
      | Inr client \<Rightarrow>
          let prompt = build_prompt B ad_text chunk ad_platform;
              chat = ChatCompletions (model self) (OpenAIClient_create_messages prompt)
                       (Some 0) None
          in
          (case first_content (sdk_chat_create S client chat) of
             Inr content \<Rightarrow>
               after [init, ApiCall chat]
                 (parse_and_validate_response B content chunk ad_text ''OpenAI'')
           | Inl e \<Rightarrow>
               let resp = Responses (model self) prompt in
               (case sdk_responses_create S client resp of
                  Inr content \<Rightarrow>
                    after [init, ApiCall chat, ApiCall resp]
                      (parse_and_validate_response B content chunk ad_text ''OpenAI'')
                | Inl e2 \<Rightarrow>
                    after [init, ApiCall chat, ApiCall resp]
                      (fallback_to_mock B ad_text chunk ''OpenAI API call failed''))))"

text \<open>\<^verbatim>\<open>OpenAIClient.predict_chunk_async\<close>; \<open>S\<close> is the async SDK.\<close>

definition OpenAIClient_predict_chunk_async ::
  "'p base \<Rightarrow> 'c sdk \<Rightarrow> environ \<Rightarrow> llm_client \<Rightarrow> string \<Rightarrow> 'p list \<Rightarrow> string
     \<Rightarrow> event list \<times> int list" where
  "OpenAIClient_predict_chunk_async B S env self ad_text chunk ad_platform =
     (let init = ClientInit (resolve_key env self) None in
      case OpenAIClient_get_async_client S env self of
        Inl (ImportError m) \<Rightarrow>
          after [init] (fallback_to_mock B ad_text chunk ''AsyncOpenAI import failed'')
      | Inl e \<Rightarrow>
          after [init] (fallback_to_mock B ad_text chunk ''AsyncOpenAI client init failed'')
      | Inr client \<Rightarrow>
          let prompt = build_prompt B ad_text chunk ad_platform;
              chat = ChatCompletions (model self) (OpenAIClient_create_messages prompt)
                       (Some 0) None
          in
          (case first_content (sdk_chat_create S client chat) of
             Inr content \<Rightarrow>
               after [init, ApiCall chat]
                 (parse_and_validate_response B content chunk ad_text ''AsyncOpenAI'')
           | Inl e \<Rightarrow>
               after [init, ApiCall chat]
                 (fallback_to_mock B ad_text chunk ''AsyncOpenAI API call failed'')))"

text \<open>\<^verbatim>\<open>DeepSeekClient.predict_chunk\<close>: the key is checked first.\<close>

definition DeepSeekClient_predict_chunk ::
  "'p base \<Rightarrow> 'c sdk \<Rightarrow> environ \<Rightarrow> llm_client \<Rightarrow> string \<Rightarrow> 'p list \<Rightarrow> string
     \<Rightarrow> event list \<times> int list" where
  "DeepSeekClient_predict_chunk B S env self ad_text chunk ad_platform =
     (if \<not> has_api_key env self then
        fallback_to_mock B ad_text chunk ''DeepSeek API key missing''
      else
        let init = ClientInit (resolve_key env self) (base_url self) in
        case DeepSeekClient_get_client S env self of
          Inl (ImportError m) \<Rightarrow>
            after [init] (fallback_to_mock B ad_text chunk ''OpenAI import failed'')
        | Inl e \<Rightarrow>
            after [init] (fallback_to_mock B ad_text chunk ''DeepSeek client init failed'')
        | Inr client \<Rightarrow>
            let prompt = build_prompt B ad_text chunk ad_platform;
                chat = ChatCompletions (Some (or_default (model self) ''deepseek-chat''))
                         (DeepSeekClient_create_messages prompt) (Some 0) (Some False)
            in
            (case first_content (sdk_chat_create S client chat) of
               Inr content \<Rightarrow>
                 after [init, ApiCall chat]
                   (parse_and_validate_response B content chunk ad_text ''DeepSeek'')
             | Inl e \<Rightarrow>
                 after [init, ApiCall chat]
                   (fallback_to_mock B ad_text chunk ''DeepSeek API call failed'')))"

text \<open>\<^verbatim>\<open>DeepSeekClient.predict_chunk_async\<close>; \<open>S\<close> is the async SDK.\<close>

definition DeepSeekClient_predict_chunk_async ::
  "'p base \<Rightarrow> 'c sdk \<Rightarrow> environ \<Rightarrow> llm_client \<Rightarrow> string \<Rightarrow> 'p list \<Rightarrow> string
     \<Rightarrow> event list \<times> int list" where
  "DeepSeekClient_predict_chunk_async B S env self ad_text chunk ad_platform =
     (if \<not> has_api_key env self then
        fallback_to_mock B ad_text chunk ''DeepSeek API key missing''
      else
        let init = ClientInit (resolve_key env self) (base_url self) in
        case DeepSeekClient_get_async_client S env self of
          Inl (ImportError m) \<Rightarrow>
            after [init] (fallback_to_mock B ad_text chunk ''AsyncOpenAI import failed'')
        | Inl e \<Rightarrow>
            after [init]
              (fallback_to_mock B ad_text chunk ''AsyncDeepSeek client init failed'')
        | Inr client \<Rightarrow>
            let prompt = build_prompt B ad_text chunk ad_platform;
                chat = ChatCompletions (Some (or_default (model self) ''deepseek-chat''))
                         (DeepSeekClient_create_messages prompt) (Some 0) (Some False)
            in
            (case first_content (sdk_chat_create S client chat) of
               Inr content \<Rightarrow>
                 after [init, ApiCall chat]
                   (parse_and_validate_response B content chunk ad_text ''AsyncDeepSeek'')
             | Inl e \<Rightarrow>
                 after [init, ApiCall chat]
                   (fallback_to_mock B ad_text chunk ''AsyncDeepSeek API call failed'')))"

subsection \<open>The Prediction Orchestrator\<close>

text \<open>
  Modelled from the spec: \<^verbatim>\<open>LLMClickPredictor\<close> and its \<^verbatim>\<open>predict_clicks\<close>
  (llm_click_model.py is not among the sources). The spec (3, 4.5, 9): the population is
  partitioned into ordered batches of the configured size, the last one possibly
  shorter; the client is selected from the provider name by a registry; in mock mode
  every batch goes to the Mock Oracle; in sequential mode the batches are processed one
  at a time, in order, by the synchronous path and the results concatenated in order;
  in concurrent mode all batches are dispatched to the concurrent path at once and the
  results are concatenated in original batch order, not completion order.
\<close>

function batches :: "nat \<Rightarrow> 'a list \<Rightarrow> 'a list list" where
  "batches bs xs = (if bs = 0 \<or> xs = [] then [] else take bs xs # batches bs (drop bs xs))"
  by pat_completeness auto
termination
  by (relation "measure (\<lambda>(bs, xs). length xs)") auto

declare batches.simps [simp del]

definition make_client :: "environ \<Rightarrow> predictor_args \<Rightarrow> llm_client option" where
  "make_client env a =
     (if pa_provider a = ''openai'' then
        Some (OpenAIClient_init (Some (pa_model a)) (pa_api_key a))
      else if pa_provider a = ''deepseek'' then
        Some (DeepSeekClient_init env (Some (pa_model a)) (pa_api_key a))
      else None)"

definition client_predict_chunk ::
  "'p base \<Rightarrow> 'c sdk \<Rightarrow> environ \<Rightarrow> llm_client \<Rightarrow> string \<Rightarrow> 'p list \<Rightarrow> string
     \<Rightarrow> event list \<times> int list" where
  "client_predict_chunk B S env self ad_text chunk ad_platform =
     (if provider_name self = ''openai'' then
        OpenAIClient_predict_chunk B S env self ad_text chunk ad_platform
      else DeepSeekClient_predict_chunk B S env self ad_text chunk ad_platform)"

definition client_predict_chunk_async ::
  "'p base \<Rightarrow> 'c sdk \<Rightarrow> environ \<Rightarrow> llm_client \<Rightarrow> string \<Rightarrow> 'p list \<Rightarrow> string
     \<Rightarrow> event list \<times> int list" where
  "client_predict_chunk_async B S env self ad_text chunk ad_platform =
     (if provider_name self = ''openai'' then
        OpenAIClient_predict_chunk_async B S env self ad_text chunk ad_platform
      else DeepSeekClient_predict_chunk_async B S env self ad_text chunk ad_platform)"

text \<open>
  Concurrent dispatch of \<open>n\<close> tasks: task \<open>k\<close> completes at time \<open>delay k\<close>, so the
  tasks complete in the order of their delays. Each completion records the task's index
  with its outcome; the join then reads the outcomes by index, in batch order, and
  lacks a result if an index has none. The first component is the completion order.
\<close>

definition gather :: "(nat \<Rightarrow> nat) \<Rightarrow> (nat \<Rightarrow> 'r) \<Rightarrow> nat \<Rightarrow> nat list \<times> 'r list option" where
  "gather delay run n =
     (let finished = sort_key delay [0..<n];
          outcomes = map (\<lambda>k. (k, run k)) finished
      in (finished, those (map (map_of outcomes) [0..<n])))"

text \<open>
  \<open>S\<close> is the synchronous SDK, \<open>A\<close> the asynchronous one. The events of a concurrent
  run are listed in completion order, the decisions in batch order.
\<close>

definition predict_clicks ::
  "'p base \<Rightarrow> 'c sdk \<Rightarrow> 'c sdk \<Rightarrow> environ \<Rightarrow> (nat \<Rightarrow> nat) \<Rightarrow> predictor_args \<Rightarrow> string
     \<Rightarrow> 'p list \<Rightarrow> string \<Rightarrow> py_error + (event list \<times> int list)" where
  "predict_clicks B S A env delay a ad_text population ad_platform =
     (let chunks = batches (nat (pa_batch_size a)) population in
      if pa_use_mock a then
        Inr ([], concat (map (\<lambda>chunk. map (mock_decide B ad_text) chunk) chunks))
      else
        (case make_client env a of
           None \<Rightarrow> Inl (ValueError ''Unknown provider'')
         | Some client \<Rightarrow>
             if \<not> pa_use_async a then
               (let results =
                      map (\<lambda>chunk. client_predict_chunk B S env client ad_text chunk ad_platform)
                        chunks
                in Inr (concat (map fst results), concat (map snd results)))
             else
               (case gather delay
                       (\<lambda>k. client_predict_chunk_async B A env client ad_text (chunks ! k)
                              ad_platform)
                       (length chunks) of
                  (finished, None) \<Rightarrow> Inl (OtherException ''a batch has no result'')
                | (finished, Some results) \<Rightarrow>
                    Inr (concat (map (\<lambda>k. fst (client_predict_chunk_async B A env client
                                               ad_text (chunks ! k) ad_platform)) finished),
                         concat (map snd results)))))"

subsection \<open>Concrete inputs\<close>

text \<open>
  Inputs at which the theorems below are evaluated: a request with the defaults of
  \<^verbatim>\<open>CTRRequest\<close>, a file system without and with the identity bank, a Mock Oracle
  that never clicks, and vendor SDKs that refuse a missing key, that time out on chat
  completions only, and that time out on every endpoint.
\<close>

definition default_request :: ctr_request where
  "default_request =
     \<lparr>req_ad_text = ''Special 0% APR credit card offer for travel rewards'',
      req_ad_platform = ''facebook'', req_population_size = 1000, req_seed = Some 42,
      req_provider = ''openai'', req_model = None, req_batch_size = 50,
      req_use_mock = False, req_use_sync = False, req_api_key = None,
      req_identity_bank_path = None\<rparr>"

definition env_no_bank :: "(unit, nat) api_env" where
  "env_no_bank =
     \<lparr>path_exists = (\<lambda>p. False),
      load_identity_bank = (\<lambda>p. Inl (OtherException ''No such file or directory'')),
      env_sample_identities = (\<lambda>n b s. Inr [0..<nat n]),
      env_predict_clicks = (\<lambda>a t ps pf. Inr (map (\<lambda>p. 0) ps))\<rparr>"

definition env_with_bank :: "(unit, nat) api_env" where
  "env_with_bank =
     \<lparr>path_exists = (\<lambda>p. p = ''data/identity_bank.json''),
      load_identity_bank = (\<lambda>p. Inr ()),
      env_sample_identities = (\<lambda>n b s. Inr [0..<nat n]),
      env_predict_clicks = (\<lambda>a t ps pf. Inr (map (\<lambda>p. 0) ps))\<rparr>"

definition never_clicks :: "nat base" where
  "never_clicks =
     \<lparr>mock_decide = (\<lambda>ad p. 0), build_prompt = (\<lambda>ad chunk pf. ad),
      locate_array = (\<lambda>s. if s = ''[1, 1]'' then Some [1, 1] else None)\<rparr>"

definition sdk_needs_key :: "unit sdk" where
  "sdk_needs_key =
     \<lparr>sdk_construct =
        (\<lambda>k b. case k of
                 None \<Rightarrow> Inl (OtherException ''The api_key client option must be set'')
               | Some x \<Rightarrow> Inr ()),
      sdk_chat_create = (\<lambda>c r. Inr [''[1, 1]'']),
      sdk_responses_create = (\<lambda>c r. Inr ''[1, 1]'')\<rparr>"

definition sdk_chat_down :: "unit sdk" where
  "sdk_chat_down =
     \<lparr>sdk_construct = (\<lambda>k b. Inr ()),
      sdk_chat_create = (\<lambda>c r. Inl (OtherException ''Request timed out.'')),
      sdk_responses_create = (\<lambda>c r. Inr ''[1, 1]'')\<rparr>"

definition sdk_all_down :: "unit sdk" where
  "sdk_all_down =
     \<lparr>sdk_construct = (\<lambda>k b. Inr ()),
      sdk_chat_create = (\<lambda>c r. Inl (OtherException ''Request timed out.'')),
      sdk_responses_create = (\<lambda>c r. Inl (OtherException ''Request timed out.''))\<rparr>"

text \<open>
  A toy generator whose state is a counter: \<open>random\<close> yields the last decimal digit of
  the counter as a tenth (and 5/2, outside the unit interval, at a positive multiple of
  25), \<open>gauss\<close> the mean shifted by up to one deviation, \<open>_randbelow n\<close> the counter
  modulo \<open>n\<close>; seeding with \<open>k\<close> sets the counter to \<open>|k|\<close>.
\<close>

definition toy_rng :: "nat rng_ops" where
  "toy_rng =
     \<lparr>rng_random =
        (\<lambda>s. (if s mod 25 = 0 \<and> 0 < s then 5 / 2 else of_nat (s mod 10) / 10, Suc s)),
      rng_gauss = (\<lambda>m sd s. (m + sd * (of_nat (s mod 5) - 2) / 2, Suc s)),
      rng_randbelow = (\<lambda>n s. (s mod n, Suc s)),
      rng_seed = (\<lambda>k. nat \<bar>k\<bar>)\<rparr>"

definition toy_bank :: identity_bank where
  "toy_bank =
     \<lparr>bank_gender = Some (Categorical [''Male'', ''Female''] None),
      bank_age = Some (IntNormal (Some 40) (Some 12) (Some 18) (Some 90)),
      bank_region =
        Some (Region [RegionItem (Some ''Boston'') (Some ''MA''),
                      RegionItem (Some ''Austin'') (Some ''TX'')]),
      bank_occupation =
        Some (Categorical [''Engineer'', ''Teacher'', ''Nurse'']
                (Some [1 / 2, 1 / 4, 1 / 4])),
      bank_annual_salary =
        Some (FloatBucketed [Bucket (Some 20000) (Some 50000) (Some (6 / 10)),
                             Bucket (Some 50000) (Some 150000) (Some (4 / 10))]),
      bank_liability_status =
        Some (FloatBucketed [Bucket (Some 0) (Some 10000) None]),
      bank_is_married = Some (BoolCfg (Some (1 / 2))),
      bank_health_status = Some (HealthCfg (Some (3 / 10)) [''None'', ''Asthma''])\<rparr>"

definition async_openai_args :: predictor_args where
  "async_openai_args =
     \<lparr>pa_provider = ''openai'', pa_model = ''gpt-4o-mini'', pa_batch_size = 2,
      pa_use_mock = False, pa_use_async = True, pa_api_key = Some ''sk-test''\<rparr>"

definition no_environ :: environ where
  "no_environ = (\<lambda>v. None)"

section \<open>Properties\<close>

subsection \<open>compute_ctr\<close>

lemma count_truthy_acc:
  "count_truthy acc xs = acc + int (length (filter (\<lambda>x. x \<noteq> 0) xs))"
  by (induction xs arbitrary: acc) auto

text \<open>
  C8. For every list of binary click predictions, compute_ctr returns the number of
  truthy (non-zero) entries divided by the length of the list, and returns 0 for the
  empty list (no division by zero is attempted there).
\<close>

theorem compute_ctr_fraction:
  "compute_ctr [] = 0 \<and>
   compute_ctr (x # xs) =
     of_nat (card {i. i < length (x # xs) \<and> (x # xs) ! i \<noteq> 0}) / of_nat (length (x # xs))"
proof -
  have len: "length (filter (\<lambda>y. y \<noteq> 0) ys) = card {i. i < length ys \<and> ys ! i \<noteq> 0}"
    for ys :: "int list"
    by (rule length_filter_conv_card)
  have "count_truthy 0 (x # xs) = int (card {i. i < length (x # xs) \<and> (x # xs) ! i \<noteq> 0})"
    unfolding count_truthy_acc len by simp
  then show ?thesis
    by (simp add: compute_ctr_def del: count_truthy.simps)
qed

subsection \<open>weighted choice\<close>

lemma weighted_loop_range:
  "weighted_loop r cum i ws = Some j \<Longrightarrow> i \<le> j \<and> j < i + int (length ws)"
proof (induction ws arbitrary: cum i)
  case Nil
  then show ?case by simp
next
  case (Cons w ws)
  show ?case
  proof (cases "r \<le> cum + w")
    case True
    with Cons.prems show ?thesis by simp
  next
    case False
    with Cons.prems have "weighted_loop r (cum + w) (i + 1) ws = Some j" by simp
    from Cons.IH [OF this] show ?thesis by simp
  qed
qed

lemma weighted_loop_none:
  "weighted_loop r cum i ws = None \<longleftrightarrow> (\<forall>k < length ws. cum + foldl (+) 0 (take (Suc k) ws) < r)"
proof (induction ws arbitrary: cum i)
  case Nil
  then show ?case by simp
next
  case (Cons w ws)
  have fl: "foldl (+) a ys = a + foldl (+) 0 ys" for a :: rat and ys
    by (induction ys arbitrary: a) (simp, metis (no_types) add.assoc add_0 foldl_Cons)
  show ?case
  proof (cases "r \<le> cum + w")
    case True
    then have "\<not> (cum + foldl (+) 0 (take (Suc 0) (w # ws)) < r)" by simp
    then have "\<not> (\<forall>k < length (w # ws). cum + foldl (+) 0 (take (Suc k) (w # ws)) < r)"
      by (metis length_Cons zero_less_Suc)
    with True show ?thesis by simp
  next
    case False
    have "(\<forall>k < length (w # ws). cum + foldl (+) 0 (take (Suc k) (w # ws)) < r)
          \<longleftrightarrow> (\<forall>k < length ws. (cum + w) + foldl (+) 0 (take (Suc k) ws) < r)"
      (is "?L \<longleftrightarrow> ?R")
    proof
      assume l: ?L
      show ?R
      proof (intro allI impI)
        fix k assume "k < length ws"
        then have "Suc k < length (w # ws)" by simp
        from l [rule_format, OF this]
        have "cum + foldl (+) 0 (take (Suc (Suc k)) (w # ws)) < r" .
        then show "(cum + w) + foldl (+) 0 (take (Suc k) ws) < r"
          using fl [of w "take (Suc k) ws"] by (simp add: add.assoc)
      qed
    next
      assume r: ?R
      show ?L
      proof (intro allI impI)
        fix k assume k: "k < length (w # ws)"
        show "cum + foldl (+) 0 (take (Suc k) (w # ws)) < r"
        proof (cases k)
          case 0
          with False show ?thesis by simp
        next
          case (Suc k')
          with k have "k' < length ws" by simp
          from r [rule_format, OF this] show ?thesis
            using fl [of w "take (Suc k') ws"] Suc by (simp add: add.assoc)
        qed
      qed
    qed
    with False Cons.IH [of "cum + w" "i + 1"] show ?thesis by simp
  qed
qed

text \<open>
  C10. \<open>_weighted_choice\<close> raises ValueError exactly when the sum of the weights is not
  positive; otherwise it returns an index between 0 and \<open>len(weights) - 1\<close>, whatever
  the generator produced, and when no accumulated partial sum reaches the drawn value
  the loop ends without a return and the result is the final index.
\<close>

theorem weighted_choice_index:
  "(weighted_choice R weights rng = Inl (ValueError ''Sum of weights must be positive'')
      \<longleftrightarrow> foldl (+) 0 weights \<le> 0) \<and>
   ((\<exists>e. weighted_choice R weights rng = Inl e) \<longleftrightarrow> foldl (+) 0 weights \<le> 0) \<and>
   (0 < foldl (+) 0 weights \<longrightarrow>
      (\<exists>i. weighted_choice R weights rng = Inr (i, snd (rng_random R rng)) \<and>
           0 \<le> i \<and> i \<le> int (length weights) - 1) \<and>
      ((\<forall>k < length weights.
           foldl (+) 0 (take (Suc k) weights) < fst (rng_random R rng) * foldl (+) 0 weights)
         \<longrightarrow> weighted_choice R weights rng =
               Inr (int (length weights) - 1, snd (rng_random R rng))))"
proof -
  let ?total = "foldl (+) 0 weights"
  obtain u rng' where draw: "rng_random R rng = (u, rng')"
    by (cases "rng_random R rng")
  have raise: "weighted_choice R weights rng = Inl (ValueError ''Sum of weights must be positive'')"
    if "?total \<le> 0"
    using that by (simp add: weighted_choice_def)
  have ne: "weights \<noteq> []" if "0 < ?total"
    using that by auto
  have ret: "\<exists>i. weighted_choice R weights rng = Inr (i, rng') \<and>
                  0 \<le> i \<and> i \<le> int (length weights) - 1"
    if pos: "0 < ?total"
  proof (cases "weighted_loop (u * ?total) 0 0 weights")
    case None
    with pos ne [OF pos] draw show ?thesis
      by (cases weights) (simp_all add: weighted_choice_def Let_def)
  next
    case (Some j)
    from weighted_loop_range [OF Some] have "0 \<le> j \<and> j \<le> int (length weights) - 1" by simp
    with pos Some draw show ?thesis
      by (simp add: weighted_choice_def Let_def)
  qed
  have fall: "weighted_choice R weights rng = Inr (int (length weights) - 1, rng')"
    if pos: "0 < ?total"
      and no: "\<forall>k < length weights. foldl (+) 0 (take (Suc k) weights) < u * ?total"
  proof -
    from no have "weighted_loop (u * ?total) 0 0 weights = None"
      by (simp add: weighted_loop_none)
    with pos draw show ?thesis by (simp add: weighted_choice_def Let_def)
  qed
  have noraise: "\<not> (\<exists>e. weighted_choice R weights rng = Inl e)" if "0 < ?total"
    using ret [OF that] by auto
  show ?thesis
    unfolding draw fst_conv snd_conv
    using raise ret fall noraise
    by (metis not_le)
qed

theorem weighted_choice_index_witness:
  "0 < foldl (+) 0 [1 / 4, 3 / 4 :: rat] \<and>
   weighted_choice toy_rng [1 / 4, 3 / 4] 25 = Inr (1, 26) \<and>
   weighted_choice toy_rng [1 / 4, 3 / 4] 1 = Inr (0, 2) \<and>
   weighted_choice toy_rng [1 / 4, 3 / 4] 9 = Inr (1, 10) \<and>
   weighted_choice toy_rng [] 0 = Inl (ValueError ''Sum of weights must be positive'') \<and>
   weighted_choice toy_rng [1, - 1] 0 = Inl (ValueError ''Sum of weights must be positive'')"
  using weighted_choice_index [of toy_rng "[1 / 4, 3 / 4]" 25]
  by (simp add: weighted_choice_def toy_rng_def)

subsection \<open>Request validation\<close>

lemma validate_request_ok:
  "validate_request rq = Inr () \<longleftrightarrow>
     req_ad_platform rq \<in> {''facebook'', ''tiktok'', ''amazon''} \<and>
     req_provider rq \<in> {''openai'', ''deepseek''}"
  by (auto simp: validate_request_def AVAILABLE_PLATFORMS_def AVAILABLE_PROVIDERS_def)

lemma validate_request_status:
  "validate_request rq = Inl h \<Longrightarrow> status_code h = 400"
  by (auto simp: validate_request_def split: if_splits)

lemma predict_ctr_invalid:
  assumes "validate_request rq = Inl h"
  shows "predict_ctr E rq = ([], Inl h)"
  using assms by (simp add: predict_ctr_def)

lemma predict_ctr_valid_400:
  assumes "validate_request rq = Inr ()"
  shows "(\<exists>d. snd (predict_ctr E rq) = Inl (HTTPException 400 d)) \<longleftrightarrow>
         \<not> path_exists E (or_default (req_identity_bank_path rq) DEFAULT_IDENTITY_BANK_PATH)"
  using assms
  by (auto simp: predict_ctr_def Let_def internal_error_def split: sum.splits)

lemma predict_ctr_valid_stages:
  assumes "validate_request rq = Inr ()"
    and "snd (predict_ctr E rq) = Inl (HTTPException 400 d)"
  shows "fst (predict_ctr E rq) = []"
  using assms
  by (auto simp: predict_ctr_def Let_def internal_error_def split: sum.splits if_splits)

text \<open>
  C6, as the claim has it, fails: a request with a valid platform and a valid provider
  is rejected with HTTP 400, before anything is loaded, sampled or predicted, when the
  identity bank file does not exist.
\<close>

theorem predict_ctr_400_counterexample:
  "req_ad_platform default_request \<in> {''facebook'', ''tiktok'', ''amazon''} \<and>
   req_provider default_request \<in> {''openai'', ''deepseek''} \<and>
   predict_ctr env_no_bank default_request =
     ([], Inl (HTTPException 400 ''Identity bank file not found: data/identity_bank.json''))"
  by (simp add: predict_ctr_def validate_request_def AVAILABLE_PLATFORMS_def
      AVAILABLE_PROVIDERS_def default_request_def env_no_bank_def or_default_def
      DEFAULT_IDENTITY_BANK_PATH_def)

text \<open>
  C6, amended. \<open>validate_request\<close> raises nothing exactly when the platform is one of
  facebook, tiktok, amazon and the provider one of openai, deepseek, and raises an HTTP
  400 otherwise. \<open>predict_ctr\<close> rejects a request with an HTTP 400 exactly when the
  platform is invalid, the provider is invalid, or the identity bank file (the path of
  the request, else the default path) does not exist; every such rejection comes before
  the bank is loaded, an identity sampled or a batch predicted.
\<close>

theorem predict_ctr_rejects_400:
  "(validate_request rq = Inr () \<longleftrightarrow>
      req_ad_platform rq \<in> {''facebook'', ''tiktok'', ''amazon''} \<and>
      req_provider rq \<in> {''openai'', ''deepseek''}) \<and>
   (\<forall>h. validate_request rq = Inl h \<longrightarrow> status_code h = 400) \<and>
   ((\<exists>d. snd (predict_ctr E rq) = Inl (HTTPException 400 d)) \<longleftrightarrow>
      req_ad_platform rq \<notin> {''facebook'', ''tiktok'', ''amazon''} \<or>
      req_provider rq \<notin> {''openai'', ''deepseek''} \<or>
      \<not> path_exists E (or_default (req_identity_bank_path rq) DEFAULT_IDENTITY_BANK_PATH)) \<and>
   (\<forall>d. snd (predict_ctr E rq) = Inl (HTTPException 400 d) \<longrightarrow> fst (predict_ctr E rq) = [])"
proof (cases "validate_request rq")
  case (Inl h)
  from validate_request_status [OF Inl] obtain d where h: "h = HTTPException 400 d"
    by (cases h) simp
  have bad: "\<not> (req_ad_platform rq \<in> {''facebook'', ''tiktok'', ''amazon''} \<and>
                req_provider rq \<in> {''openai'', ''deepseek''})"
    using Inl validate_request_ok [of rq] by simp
  have res: "predict_ctr E rq = ([], Inl (HTTPException 400 d))"
    using predict_ctr_invalid [OF Inl] h by simp
  have st: "\<forall>h. validate_request rq = Inl h \<longrightarrow> status_code h = 400"
    using validate_request_status by blast
  show ?thesis
    using bad res st validate_request_ok [of rq] by auto
next
  case (Inr u)
  then have ok: "validate_request rq = Inr ()" by simp
  have good: "req_ad_platform rq \<in> {''facebook'', ''tiktok'', ''amazon''} \<and>
              req_provider rq \<in> {''openai'', ''deepseek''}"
    using ok validate_request_ok [of rq] by simp
  have st: "\<forall>h. validate_request rq = Inl h \<longrightarrow> status_code h = 400"
    using validate_request_status by blast
  show ?thesis
    using ok good st predict_ctr_valid_400 [OF ok, of E] predict_ctr_valid_stages [OF ok, of E]
    by blast
qed

theorem predict_ctr_rejects_400_witness:
  "validate_request default_request = Inr () \<and>
   validate_request (default_request\<lparr>req_provider := ''claude''\<rparr>) =
     Inl (HTTPException 400 ''Invalid provider. Must be one of: ['openai', 'deepseek']'') \<and>
   snd (predict_ctr env_no_bank default_request) =
     Inl (HTTPException 400 ''Identity bank file not found: data/identity_bank.json'') \<and>
   fst (predict_ctr env_no_bank default_request) = [] \<and>
   fst (predict_ctr env_with_bank default_request) =
     [LoadBank ''data/identity_bank.json'', SampleIdentities 1000, PredictClicks]"
  using predict_ctr_rejects_400 [of default_request env_no_bank]
  by (simp add: predict_ctr_def validate_request_def AVAILABLE_PLATFORMS_def
      AVAILABLE_PROVIDERS_def default_request_def env_no_bank_def env_with_bank_def
      or_default_def DEFAULT_IDENTITY_BANK_PATH_def)

subsection \<open>Provider clients\<close>

text \<open>
  C9. For every prompt, \<open>_create_messages\<close> of the OpenAI client and of the DeepSeek
  client return the same two dicts with the keys role and content: first the system
  message with the fixed instruction, then the user message whose content is the
  prompt itself.
\<close>

theorem create_messages_two:
  "OpenAIClient_create_messages prompt =
     [[(''role'', ''system''),
       (''content'', ''You are a precise decision engine that outputs strict JSON.'')],
      [(''role'', ''user''), (''content'', prompt)]] \<and>
   DeepSeekClient_create_messages prompt = OpenAIClient_create_messages prompt \<and>
   length (OpenAIClient_create_messages prompt) = 2 \<and>
   map_of (OpenAIClient_create_messages prompt ! 0) ''role'' = Some ''system'' \<and>
   map_of (OpenAIClient_create_messages prompt ! 0) ''content'' =
     Some ''You are a precise decision engine that outputs strict JSON.'' \<and>
   map_of (OpenAIClient_create_messages prompt ! 1) ''role'' = Some ''user'' \<and>
   map_of (OpenAIClient_create_messages prompt ! 1) ''content'' = Some prompt"
  by (simp add: OpenAIClient_create_messages_def DeepSeekClient_create_messages_def)

lemmas predict_chunk_defs =
  OpenAIClient_predict_chunk_def OpenAIClient_predict_chunk_async_def
  DeepSeekClient_predict_chunk_def DeepSeekClient_predict_chunk_async_def
  OpenAIClient_get_client_def OpenAIClient_get_async_client_def
  DeepSeekClient_get_client_def DeepSeekClient_get_async_client_def
  fallback_to_mock_def after_def parse_and_validate_response_def

lemmas concrete_defs =
  never_clicks_def sdk_needs_key_def sdk_chat_down_def sdk_all_down_def no_environ_def
  OpenAIClient_init_def DeepSeekClient_init_def resolve_key_def has_api_key_def
  first_content_def OpenAIClient_create_messages_def DeepSeekClient_create_messages_def
  or_default_def

text \<open>
  C1, evaluated on the code. With no credential resolvable, both DeepSeek paths return
  the Mock Oracle's decisions tagged "DeepSeek API key missing" and do nothing else.
  The OpenAI paths have no such check: the first thing they do is construct the vendor
  client with the unresolved key, and no fallback of theirs carries the reason
  "API key missing".
\<close>

theorem predict_chunk_missing_key:
  assumes "\<not> has_api_key env self"
  shows
    "DeepSeekClient_predict_chunk B S env self ad chunk pf =
       ([Fallback ''DeepSeek API key missing''], map (mock_decide B ad) chunk) \<and>
     DeepSeekClient_predict_chunk_async B S env self ad chunk pf =
       ([Fallback ''DeepSeek API key missing''], map (mock_decide B ad) chunk) \<and>
     hd (fst (OpenAIClient_predict_chunk B S env self ad chunk pf)) =
       ClientInit (resolve_key env self) None \<and>
     hd (fst (OpenAIClient_predict_chunk_async B S env self ad chunk pf)) =
       ClientInit (resolve_key env self) None \<and>
     Fallback ''OpenAI API key missing'' \<notin>
       set (fst (OpenAIClient_predict_chunk B S env self ad chunk pf)) \<and>
     Fallback ''AsyncOpenAI API key missing'' \<notin>
       set (fst (OpenAIClient_predict_chunk_async B S env self ad chunk pf))"
  using assms
  by (auto simp: predict_chunk_defs Let_def split: sum.splits py_error.splits option.splits)

theorem predict_chunk_missing_key_witness:
  "\<not> has_api_key no_environ (OpenAIClient_init (Some ''gpt-4o-mini'') None) \<and>
   OpenAIClient_predict_chunk never_clicks sdk_needs_key no_environ
       (OpenAIClient_init (Some ''gpt-4o-mini'') None) ''ad'' [1, 2] ''facebook'' =
     ([ClientInit None None, Fallback ''OpenAI import failed''], [0, 0]) \<and>
   OpenAIClient_predict_chunk never_clicks sdk_chat_down no_environ
       (OpenAIClient_init (Some ''gpt-4o-mini'') None) ''ad'' [1, 2] ''facebook'' =
     ([ClientInit None None,
       ApiCall (ChatCompletions (Some ''gpt-4o-mini'')
                  (OpenAIClient_create_messages ''ad'') (Some 0) None),
       ApiCall (Responses (Some ''gpt-4o-mini'') ''ad''),
       ParseResponse ''[1, 1]'' ''OpenAI''], [1, 1]) \<and>
   DeepSeekClient_predict_chunk never_clicks sdk_chat_down no_environ
       (DeepSeekClient_init no_environ (Some ''deepseek-chat'') None) ''ad'' [1, 2] ''facebook'' =
     ([Fallback ''DeepSeek API key missing''], [0, 0])"
  using predict_chunk_missing_key
    [of no_environ "OpenAIClient_init (Some ''gpt-4o-mini'') None" never_clicks sdk_needs_key
      "''ad''" "[1, 2]" "''facebook''"]
  by (simp add: predict_chunk_defs concrete_defs Let_def)

text \<open>
  C3, as the claim has it, fails: in the synchronous OpenAI path the chat-completions
  call times out, the responses endpoint answers, and the decisions returned are the
  parsed answer, not the Mock Oracle's; no fallback is recorded.
\<close>

theorem openai_chat_failure_counterexample:
  "sdk_chat_create sdk_chat_down ()
       (ChatCompletions (Some ''gpt-4o-mini'') (OpenAIClient_create_messages ''ad'')
          (Some 0) None) =
     Inl (OtherException ''Request timed out.'') \<and>
   OpenAIClient_predict_chunk never_clicks sdk_chat_down no_environ
       (OpenAIClient_init (Some ''gpt-4o-mini'') (Some ''sk-test'')) ''ad'' [1, 2] ''facebook'' =
     ([ClientInit (Some ''sk-test'') None,
       ApiCall (ChatCompletions (Some ''gpt-4o-mini'')
                  (OpenAIClient_create_messages ''ad'') (Some 0) None),
       ApiCall (Responses (Some ''gpt-4o-mini'') ''ad''),
       ParseResponse ''[1, 1]'' ''OpenAI''], [1, 1]) \<and>
   map (mock_decide never_clicks ''ad'') [1, 2] = [0, 0]"
  by (simp add: predict_chunk_defs concrete_defs Let_def)

text \<open>
  C3, amended. Once the vendor client is constructed (and, for DeepSeek, a key is
  present), a chat-completions call that raises, or whose answer has no choice, makes
  both DeepSeek paths and the asynchronous OpenAI path return the Mock Oracle's
  decisions for the whole batch, tagged "DeepSeek API call failed", "AsyncDeepSeek API
  call failed" and "AsyncOpenAI API call failed"; the synchronous OpenAI path does so,
  tagged "OpenAI API call failed", when its call to the responses endpoint raises as
  well. The error never reaches the caller.
\<close>

theorem predict_chunk_api_failure:
  fixes B :: "'p base" and S :: "'c sdk" and ds :: llm_client and oa :: llm_client
    and ad :: string and chunk :: "'p list" and pf :: string
  defines "prompt \<equiv> build_prompt B ad chunk pf"
  defines "ds_chat \<equiv> ChatCompletions (Some (or_default (model ds) ''deepseek-chat''))
                       (DeepSeekClient_create_messages prompt) (Some 0) (Some False)"
  defines "oa_chat \<equiv> ChatCompletions (model oa) (OpenAIClient_create_messages prompt)
                       (Some 0) None"
  shows
    "(has_api_key env ds \<and> sdk_construct S (resolve_key env ds) (base_url ds) = Inr c \<and>
      first_content (sdk_chat_create S c ds_chat) = Inl e \<longrightarrow>
        DeepSeekClient_predict_chunk B S env ds ad chunk pf =
          ([ClientInit (resolve_key env ds) (base_url ds), ApiCall ds_chat,
            Fallback ''DeepSeek API call failed''], map (mock_decide B ad) chunk) \<and>
        DeepSeekClient_predict_chunk_async B S env ds ad chunk pf =
          ([ClientInit (resolve_key env ds) (base_url ds), ApiCall ds_chat,
            Fallback ''AsyncDeepSeek API call failed''], map (mock_decide B ad) chunk)) \<and>
     (sdk_construct S (resolve_key env oa) None = Inr c \<and>
      first_content (sdk_chat_create S c oa_chat) = Inl e \<longrightarrow>
        OpenAIClient_predict_chunk_async B S env oa ad chunk pf =
          ([ClientInit (resolve_key env oa) None, ApiCall oa_chat,
            Fallback ''AsyncOpenAI API call failed''], map (mock_decide B ad) chunk) \<and>
        (sdk_responses_create S c (Responses (model oa) prompt) = Inl e2 \<longrightarrow>
           OpenAIClient_predict_chunk B S env oa ad chunk pf =
             ([ClientInit (resolve_key env oa) None, ApiCall oa_chat,
               ApiCall (Responses (model oa) prompt),
               Fallback ''OpenAI API call failed''], map (mock_decide B ad) chunk)))"
  unfolding prompt_def ds_chat_def oa_chat_def
  by (simp add: predict_chunk_defs Let_def)

theorem predict_chunk_api_failure_witness:
  "has_api_key no_environ (DeepSeekClient_init no_environ None (Some ''sk-test'')) \<and>
   sdk_construct sdk_all_down (Some ''sk-test'') (Some ''https://api.deepseek.com'') = Inr () \<and>
   first_content (sdk_chat_create sdk_all_down ()
       (ChatCompletions (Some ''deepseek-chat'') (DeepSeekClient_create_messages ''ad'')
          (Some 0) (Some False))) =
     Inl (OtherException ''Request timed out.'') \<and>
   DeepSeekClient_predict_chunk never_clicks sdk_all_down no_environ
       (DeepSeekClient_init no_environ None (Some ''sk-test'')) ''ad'' [1, 2] ''facebook'' =
     ([ClientInit (Some ''sk-test'') (Some ''https://api.deepseek.com''),
       ApiCall (ChatCompletions (Some ''deepseek-chat'')
                  (DeepSeekClient_create_messages ''ad'') (Some 0) (Some False)),
       Fallback ''DeepSeek API call failed''], [0, 0]) \<and>
   sdk_responses_create sdk_all_down () (Responses (Some ''gpt-4o-mini'') ''ad'') =
     Inl (OtherException ''Request timed out.'') \<and>
   OpenAIClient_predict_chunk never_clicks sdk_all_down no_environ
       (OpenAIClient_init (Some ''gpt-4o-mini'') (Some ''sk-test'')) ''ad'' [1, 2] ''facebook'' =
     ([ClientInit (Some ''sk-test'') None,
       ApiCall (ChatCompletions (Some ''gpt-4o-mini'')
                  (OpenAIClient_create_messages ''ad'') (Some 0) None),
       ApiCall (Responses (Some ''gpt-4o-mini'') ''ad''),
       Fallback ''OpenAI API call failed''], [0, 0])"
  using predict_chunk_api_failure
    [where env = no_environ and ds = "DeepSeekClient_init no_environ None (Some ''sk-test'')"
       and oa = "OpenAIClient_init (Some ''gpt-4o-mini'') (Some ''sk-test'')"
       and S = sdk_all_down and c = "()" and B = never_clicks and ad = "''ad''"
       and chunk = "[1, 2]" and pf = "''facebook''"
       and e = "OtherException ''Request timed out.''"
       and ?e2.0 = "OtherException ''Request timed out.''"]
  by (simp add: concrete_defs Let_def)

text \<open>
  C4. In the synchronous OpenAI path, once the client is constructed, a failed
  chat-completions call is followed by one call to the responses endpoint with the same
  model and the prompt as input. If that call answers, its text goes to the response
  parser; only if it raises too does the path return the Mock Oracle's decisions, tagged
  "OpenAI API call failed". No other path (asynchronous OpenAI, DeepSeek synchronous and
  asynchronous) ever calls the responses endpoint.
\<close>

theorem openai_secondary_endpoint:
  fixes B :: "'p base" and S :: "'c sdk" and self :: llm_client and env :: environ
    and ad :: string and chunk :: "'p list" and pf :: string
  defines "prompt \<equiv> build_prompt B ad chunk pf"
  defines "chat \<equiv> ChatCompletions (model self) (OpenAIClient_create_messages prompt)
                    (Some 0) None"
  defines "before \<equiv> [ClientInit (resolve_key env self) None, ApiCall chat,
                       ApiCall (Responses (model self) prompt)]"
  shows
    "(sdk_construct S (resolve_key env self) None = Inr c \<and>
      first_content (sdk_chat_create S c chat) = Inl e \<longrightarrow>
        (\<forall>e2. sdk_responses_create S c (Responses (model self) prompt) = Inl e2 \<longrightarrow>
           OpenAIClient_predict_chunk B S env self ad chunk pf =
             (before @ [Fallback ''OpenAI API call failed''], map (mock_decide B ad) chunk)) \<and>
        (\<forall>text. sdk_responses_create S c (Responses (model self) prompt) = Inr text \<longrightarrow>
           OpenAIClient_predict_chunk B S env self ad chunk pf =
             after before (parse_and_validate_response B text chunk ad ''OpenAI''))) \<and>
     (\<forall>m i. ApiCall (Responses m i) \<notin>
               set (fst (OpenAIClient_predict_chunk_async B S env self ad chunk pf)) \<and>
            ApiCall (Responses m i) \<notin>
               set (fst (DeepSeekClient_predict_chunk B S env self ad chunk pf)) \<and>
            ApiCall (Responses m i) \<notin>
               set (fst (DeepSeekClient_predict_chunk_async B S env self ad chunk pf)))"
  unfolding prompt_def chat_def before_def
  by (auto simp: predict_chunk_defs Let_def split: sum.splits py_error.splits option.splits)

theorem openai_secondary_endpoint_witness:
  "sdk_construct sdk_chat_down (Some ''sk-test'') None = Inr () \<and>
   first_content (sdk_chat_create sdk_chat_down ()
       (ChatCompletions (Some ''gpt-4o-mini'') (OpenAIClient_create_messages ''ad'')
          (Some 0) None)) =
     Inl (OtherException ''Request timed out.'') \<and>
   sdk_responses_create sdk_chat_down () (Responses (Some ''gpt-4o-mini'') ''ad'') =
     Inr ''[1, 1]'' \<and>
   OpenAIClient_predict_chunk never_clicks sdk_chat_down no_environ
       (OpenAIClient_init (Some ''gpt-4o-mini'') (Some ''sk-test'')) ''ad'' [1, 2] ''facebook'' =
     ([ClientInit (Some ''sk-test'') None,
       ApiCall (ChatCompletions (Some ''gpt-4o-mini'')
                  (OpenAIClient_create_messages ''ad'') (Some 0) None),
       ApiCall (Responses (Some ''gpt-4o-mini'') ''ad''),
       ParseResponse ''[1, 1]'' ''OpenAI''], [1, 1]) \<and>
   OpenAIClient_predict_chunk never_clicks sdk_all_down no_environ
       (OpenAIClient_init (Some ''gpt-4o-mini'') (Some ''sk-test'')) ''ad'' [1, 2] ''facebook'' =
     ([ClientInit (Some ''sk-test'') None,
       ApiCall (ChatCompletions (Some ''gpt-4o-mini'')
                  (OpenAIClient_create_messages ''ad'') (Some 0) None),
       ApiCall (Responses (Some ''gpt-4o-mini'') ''ad''),
       Fallback ''OpenAI API call failed''], [0, 0])"
  using openai_secondary_endpoint
    [where env = no_environ
       and self = "OpenAIClient_init (Some ''gpt-4o-mini'') (Some ''sk-test'')"
       and S = sdk_chat_down and c = "()" and B = never_clicks and ad = "''ad''"
       and chunk = "[1, 2]" and pf = "''facebook''"
       and e = "OtherException ''Request timed out.''"]
  by (simp add: predict_chunk_defs concrete_defs Let_def)

text \<open>
  C5, evaluated on the code. Every chat-completions call, of every path, is issued with
  temperature 0 and without streaming (\<open>stream=False\<close> for DeepSeek; for OpenAI the
  argument is not passed and the SDK's default, no streaming, applies). The call to the
  responses endpoint that the synchronous OpenAI path makes after a failed
  chat-completions call passes no temperature at all: the vendor's default applies,
  not 0.
\<close>

theorem responses_call_without_temperature:
  fixes B :: "'p base" and S :: "'c sdk" and self :: llm_client
    and ad :: string and chunk :: "'p list" and pf :: string
  defines "prompt \<equiv> build_prompt B ad chunk pf"
  shows
    "(\<forall>call. ApiCall call \<in> set (fst (DeepSeekClient_predict_chunk B S env self ad chunk pf)) \<or>
             ApiCall call \<in> set (fst (DeepSeekClient_predict_chunk_async B S env self ad chunk pf))
         \<longrightarrow> call_temperature call = Some 0 \<and> call_stream call = Some False) \<and>
     (\<forall>call. ApiCall call \<in> set (fst (OpenAIClient_predict_chunk_async B S env self ad chunk pf))
         \<longrightarrow> call_temperature call = Some 0 \<and> call_stream call = None) \<and>
     (\<forall>m msgs t s.
         ApiCall (ChatCompletions m msgs t s) \<in>
           set (fst (OpenAIClient_predict_chunk B S env self ad chunk pf))
         \<longrightarrow> t = Some 0 \<and> s = None) \<and>
     (sdk_construct S (resolve_key env self) None = Inr c \<and>
      first_content (sdk_chat_create S c
          (ChatCompletions (model self) (OpenAIClient_create_messages prompt) (Some 0) None)) =
        Inl e \<longrightarrow>
        ApiCall (Responses (model self) prompt) \<in>
          set (fst (OpenAIClient_predict_chunk B S env self ad chunk pf)) \<and>
        call_temperature (Responses (model self) prompt) = None)"
  unfolding prompt_def
  by (auto simp: predict_chunk_defs Let_def split: sum.splits py_error.splits option.splits
      if_splits)

theorem responses_call_without_temperature_witness:
  "sdk_construct sdk_chat_down (Some ''sk-test'') None = Inr () \<and>
   first_content (sdk_chat_create sdk_chat_down ()
       (ChatCompletions (Some ''gpt-4o-mini'') (OpenAIClient_create_messages ''ad'')
          (Some 0) None)) =
     Inl (OtherException ''Request timed out.'') \<and>
   fst (OpenAIClient_predict_chunk never_clicks sdk_chat_down no_environ
       (OpenAIClient_init (Some ''gpt-4o-mini'') (Some ''sk-test'')) ''ad'' [1, 2] ''facebook'') ! 2 =
     ApiCall (Responses (Some ''gpt-4o-mini'') ''ad'') \<and>
   call_temperature (Responses (Some ''gpt-4o-mini'') ''ad'') = None"
  using responses_call_without_temperature
    [where env = no_environ
       and self = "OpenAIClient_init (Some ''gpt-4o-mini'') (Some ''sk-test'')"
       and S = sdk_chat_down and c = "()" and B = never_clicks and ad = "''ad''"
       and chunk = "[1, 2]" and pf = "''facebook''"
       and e = "OtherException ''Request timed out.''"]
  by (simp add: predict_chunk_defs concrete_defs Let_def)

subsection \<open>The sampler\<close>

lemma sample_loop_length:
  "sample_loop R bank k rng = Inr idents \<Longrightarrow> length idents = k"
  by (induction k arbitrary: rng idents) (auto split: sum.splits prod.splits)

text \<open>
  C7, as the claim has it, fails: with \<open>seed=None\<close> (the default of the parameter) the
  generator is seeded from the operating system, and two calls with the same \<open>n\<close>,
  the same bank and the same seed \<open>None\<close> return different identities when that source
  is in different states.
\<close>

theorem sample_identities_unseeded_counterexample:
  "sample_identities toy_rng 0 1 toy_bank None =
     Inr [\<lparr>gender = ''Male'', age = 34, region = ''Boston, MA'',
            occupation = ''Engineer'', annual_salary = 35000,
            liability_status = 7000, is_married = False, health_status = False,
            illness = None\<rparr>] \<and>
   sample_identities toy_rng 1 1 toy_bank None =
     Inr [\<lparr>gender = ''Female'', age = 40, region = ''Austin, TX'',
            occupation = ''Engineer'', annual_salary = 38000,
            liability_status = 8000, is_married = False, health_status = True,
            illness = Some ''Asthma''\<rparr>]"
  by code_simp

text \<open>
  C7, amended. Two calls to \<open>sample_identities\<close> with identical \<open>n\<close>, identity bank and
  int seed have the same outcome (the same sequence, or the same exception), whatever
  the state of the operating system's entropy source; and a call that returns, with
  any seed, returns exactly \<open>n\<close> identities for \<open>n \<ge> 0\<close>.
\<close>

theorem sample_identities_deterministic:
  "sample_identities R entropy1 n bank (Some k) = sample_identities R entropy2 n bank (Some k) \<and>
   (0 \<le> n \<and> sample_identities R entropy1 n bank seed = Inr idents
      \<longrightarrow> int (length idents) = n)"
proof -
  have "sample_identities R entropy1 n bank (Some k) = sample_loop R bank (nat n) (rng_seed R k)"
    by (simp add: sample_identities_def)
  moreover
  have "sample_identities R entropy2 n bank (Some k) = sample_loop R bank (nat n) (rng_seed R k)"
    by (simp add: sample_identities_def)
  moreover
  have "int (length idents) = n"
    if "0 \<le> n" and "sample_identities R entropy1 n bank seed = Inr idents"
    using that sample_loop_length [of R bank "nat n" _ idents]
    by (auto simp: sample_identities_def Let_def)
  ultimately show ?thesis by simp
qed

lemma sample_identities_seed_42:
  "map_sum id (map gender) (sample_identities toy_rng 0 2 toy_bank (Some 42)) =
     Inr [''Male'', ''Female''] \<and>
   map_sum id (map gender) (sample_identities toy_rng 1 2 toy_bank (Some 42)) =
     Inr [''Male'', ''Female'']"
  by code_simp

theorem sample_identities_deterministic_witness:
  "sample_identities toy_rng 0 2 toy_bank (Some 42) =
     sample_identities toy_rng 1 2 toy_bank (Some 42) \<and>
   map_sum id (map gender) (sample_identities toy_rng 0 2 toy_bank (Some 42)) =
     Inr [''Male'', ''Female'']"
proof -
  have same: "sample_identities toy_rng 0 2 toy_bank (Some 42) =
              sample_identities toy_rng 1 2 toy_bank (Some 42)"
    using sample_identities_deterministic [of toy_rng 0 2 toy_bank 42 1] by blast
  with sample_identities_seed_42 show ?thesis by blast
qed

subsection \<open>The Prediction Orchestrator\<close>

lemma concat_batches: "0 < bs \<Longrightarrow> concat (batches bs xs) = xs"
proof (induction bs xs rule: batches.induct)
  case (1 bs xs)
  show ?case
  proof (cases "xs = []")
    case True
    then show ?thesis by (subst batches.simps) simp
  next
    case False
    with 1 have "concat (batches bs (drop bs xs)) = drop bs xs" by simp
    with False 1(2) show ?thesis by (subst batches.simps) simp
  qed
qed

lemma fallback_length: "length (snd (fallback_to_mock B ad chunk r)) = length chunk"
  by (simp add: fallback_to_mock_def)

lemma parse_length:
  "length (snd (parse_and_validate_response B content chunk ad tag)) = length chunk"
  by (auto simp: parse_and_validate_response_def fallback_to_mock_def Let_def
      split: option.splits)

lemma after_snd: "snd (after evs r) = snd r"
  by (simp add: after_def)

lemma chunk_length:
  "length (snd (OpenAIClient_predict_chunk B S env self ad chunk pf)) = length chunk"
  "length (snd (OpenAIClient_predict_chunk_async B S env self ad chunk pf)) = length chunk"
  "length (snd (DeepSeekClient_predict_chunk B S env self ad chunk pf)) = length chunk"
  "length (snd (DeepSeekClient_predict_chunk_async B S env self ad chunk pf)) = length chunk"
  by (simp_all add: OpenAIClient_predict_chunk_def OpenAIClient_predict_chunk_async_def
      DeepSeekClient_predict_chunk_def DeepSeekClient_predict_chunk_async_def Let_def
      after_snd fallback_length parse_length split: sum.splits py_error.splits)

lemma fallback_binary:
  "\<forall>t p. mock_decide B t p \<in> {0, 1} \<Longrightarrow>
   set (snd (fallback_to_mock B ad chunk r)) \<subseteq> {0, 1}"
  by (auto simp: fallback_to_mock_def)

lemma parse_binary:
  "\<forall>t p. mock_decide B t p \<in> {0, 1} \<Longrightarrow>
   set (snd (parse_and_validate_response B content chunk ad tag)) \<subseteq> {0, 1}"
  by (auto simp: parse_and_validate_response_def fallback_to_mock_def Let_def
      split: option.splits dest!: in_set_takeD in_set_dropD)

lemma chunk_binary:
  assumes "\<forall>t p. mock_decide B t p \<in> {0, 1}"
  shows "set (snd (OpenAIClient_predict_chunk B S env self ad chunk pf)) \<subseteq> {0, 1}"
    and "set (snd (OpenAIClient_predict_chunk_async B S env self ad chunk pf)) \<subseteq> {0, 1}"
    and "set (snd (DeepSeekClient_predict_chunk B S env self ad chunk pf)) \<subseteq> {0, 1}"
    and "set (snd (DeepSeekClient_predict_chunk_async B S env self ad chunk pf)) \<subseteq> {0, 1}"
  using fallback_binary [OF assms] parse_binary [OF assms]
  by (simp_all add: OpenAIClient_predict_chunk_def OpenAIClient_predict_chunk_async_def
      DeepSeekClient_predict_chunk_def DeepSeekClient_predict_chunk_async_def Let_def
      after_snd split: sum.splits py_error.splits)

lemma client_length:
  "length (snd (client_predict_chunk B S env self ad chunk pf)) = length chunk"
  "length (snd (client_predict_chunk_async B S env self ad chunk pf)) = length chunk"
  by (simp_all add: client_predict_chunk_def client_predict_chunk_async_def chunk_length)

lemma client_binary:
  assumes "\<forall>t p. mock_decide B t p \<in> {0, 1}"
  shows "set (snd (client_predict_chunk B S env self ad chunk pf)) \<subseteq> {0, 1}"
    and "set (snd (client_predict_chunk_async B S env self ad chunk pf)) \<subseteq> {0, 1}"
  unfolding client_predict_chunk_def client_predict_chunk_async_def
  by (cases "provider_name self = ''openai''"; simp add: chunk_binary [OF assms])+

lemma those_Some: "those (map (\<lambda>i. Some (f i)) xs) = Some (map f xs)"
  by (induction xs) simp_all

text \<open>Whatever the delays, every task has its outcome at the join, read in batch order.\<close>

lemma gather_result: "gather delay run n = (sort_key delay [0..<n], Some (map run [0..<n]))"
proof -
  have "map (map_of (map (\<lambda>k. (k, run k)) (sort_key delay [0..<n]))) [0..<n] =
        map (\<lambda>i. Some (run i)) [0..<n]"
    by (rule map_cong) (simp_all add: map_of_map_restrict)
  then have "those (map (map_of (map (\<lambda>k. (k, run k)) (sort_key delay [0..<n]))) [0..<n]) =
             Some (map run [0..<n])"
    by (simp only: those_Some)
  then show ?thesis
    unfolding gather_def Let_def by (simp only:)
qed

lemma zip_concat:
  "(\<And>c. length (f c) = length c) \<Longrightarrow>
   zip (concat cs) (concat (map f cs)) = concat (map (\<lambda>c. zip c (f c)) cs)"
  by (induction cs) simp_all

lemma concat_length:
  "(\<And>c. length (f c) = length c) \<Longrightarrow> length (concat (map f cs)) = length (concat cs)"
  by (induction cs) simp_all

lemma concat_binary:
  "(\<And>c. set (f c) \<subseteq> {0, 1 :: int}) \<Longrightarrow> set (concat (map f cs)) \<subseteq> {0, 1}"
  by (induction cs) auto

lemma make_client_known:
  "pa_provider a \<in> {''openai'', ''deepseek''} \<Longrightarrow> \<exists>client. make_client env a = Some client"
  by (auto simp: make_client_def)

lemma predict_clicks_mock:
  "pa_use_mock a \<Longrightarrow>
   predict_clicks B S A env delay a ad population pf =
     Inr ([], concat (map (\<lambda>chunk. map (mock_decide B ad) chunk)
                        (batches (nat (pa_batch_size a)) population)))"
  by (simp add: predict_clicks_def Let_def)

lemma predict_clicks_sync:
  "\<not> pa_use_mock a \<Longrightarrow> \<not> pa_use_async a \<Longrightarrow> make_client env a = Some client \<Longrightarrow>
   predict_clicks B S A env delay a ad population pf =
     Inr (concat (map (\<lambda>chunk. fst (client_predict_chunk B S env client ad chunk pf))
                    (batches (nat (pa_batch_size a)) population)),
          concat (map (\<lambda>chunk. snd (client_predict_chunk B S env client ad chunk pf))
                    (batches (nat (pa_batch_size a)) population)))"
  by (simp add: predict_clicks_def Let_def comp_def)

lemma predict_clicks_async:
  assumes "\<not> pa_use_mock a" and "pa_use_async a" and "make_client env a = Some client"
  shows "\<exists>tr. predict_clicks B S A env delay a ad population pf =
     Inr (tr,
          concat (map (\<lambda>chunk. snd (client_predict_chunk_async B A env client ad chunk pf))
                    (batches (nat (pa_batch_size a)) population)))"
proof -
  let ?cs = "batches (nat (pa_batch_size a)) population"
  have "map (\<lambda>k. snd (client_predict_chunk_async B A env client ad (?cs ! k) pf))
          [0..<length ?cs]
        = map (\<lambda>chunk. snd (client_predict_chunk_async B A env client ad chunk pf)) ?cs"
    by (rule nth_equalityI) simp_all
  then show ?thesis
    using assms by (simp add: predict_clicks_def Let_def gather_result comp_def)
qed

text \<open>
  C2. For every population and every positive batch size, with a known provider and a
  Mock Oracle that decides 0 or 1: in mock mode, in sequential mode and in concurrent
  mode (whatever the order in which the batches complete), and whatever the vendor SDK
  and the environment do, \<open>predict_clicks\<close> returns a decision vector as long as the
  population, of entries 0 or 1. The batches, concatenated, are the population, and
  pairing the population with the vector pairs every profile with the decision that
  its own batch produced at the profile's place in the batch: the vector is in input
  population order.
\<close>

theorem predict_clicks_length_order:
  assumes bs: "0 < pa_batch_size a"
    and prov: "pa_provider a \<in> {''openai'', ''deepseek''}"
    and mock: "\<forall>t p. mock_decide B t p \<in> {0, 1}"
  shows "\<exists>tr ds client.
           predict_clicks B S A env delay a ad population pf = Inr (tr, ds) \<and>
           make_client env a = Some client \<and>
           length ds = length population \<and>
           set ds \<subseteq> {0, 1} \<and>
           concat (batches (nat (pa_batch_size a)) population) = population \<and>
           zip population ds =
             concat (map (\<lambda>chunk. zip chunk
                        (if pa_use_mock a then map (mock_decide B ad) chunk
                         else if pa_use_async a then
                           snd (client_predict_chunk_async B A env client ad chunk pf)
                         else snd (client_predict_chunk B S env client ad chunk pf)))
                   (batches (nat (pa_batch_size a)) population))"
proof -
  let ?cs = "batches (nat (pa_batch_size a)) population"
  from make_client_known [OF prov] obtain client where cl: "make_client env a = Some client"
    by blast
  let ?f = "\<lambda>chunk. if pa_use_mock a then map (mock_decide B ad) chunk
                     else if pa_use_async a then
                       snd (client_predict_chunk_async B A env client ad chunk pf)
                     else snd (client_predict_chunk B S env client ad chunk pf)"
  from bs have cc: "concat ?cs = population"
    by (simp add: concat_batches)
  have len: "length (?f c) = length c" for c
    by (simp add: client_length)
  have bin: "set (?f c) \<subseteq> {0, 1}" for c
    using mock client_binary(1) [OF mock, of S env client ad c pf]
      client_binary(2) [OF mock, of A env client ad c pf]
    by auto
  have res: "\<exists>tr. predict_clicks B S A env delay a ad population pf =
                   Inr (tr, concat (map ?f ?cs))"
  proof (cases "pa_use_mock a")
    case True
    from predict_clicks_mock [OF True, of B S A env delay ad population pf]
    show ?thesis
      using True by auto
  next
    case False
    show ?thesis
    proof (cases "pa_use_async a")
      case True
      from predict_clicks_async [OF False True cl, of B S A delay ad population pf]
      show ?thesis
        using False True by auto
    next
      case nb: False
      from predict_clicks_sync [OF False nb cl, of B S A delay ad population pf]
      show ?thesis
        using False nb by auto
    qed
  qed
  then obtain tr where
    r: "predict_clicks B S A env delay a ad population pf = Inr (tr, concat (map ?f ?cs))"
    by blast
  have l: "length (concat (map ?f ?cs)) = length population"
    using concat_length [of ?f ?cs, OF len] cc by simp
  have b: "set (concat (map ?f ?cs)) \<subseteq> {0, 1}"
    by (rule concat_binary) (rule bin)
  have z: "zip population (concat (map ?f ?cs)) =
           concat (map (\<lambda>chunk. zip chunk (?f chunk)) ?cs)"
    using zip_concat [of ?f ?cs, OF len] cc by simp
  from r cl l b cc z show ?thesis by blast
qed

lemma predict_clicks_five:
  "batches 2 [1, 2, 3, 4, 5 :: nat] = [[1, 2], [3, 4], [5]] \<and>
   map_sum id snd
     (predict_clicks never_clicks sdk_chat_down sdk_needs_key no_environ (\<lambda>k. 10 - k)
        async_openai_args ''ad'' [1, 2, 3, 4, 5] ''facebook'') = Inr [1, 1, 1, 1, 1] \<and>
   map_sum id snd
     (predict_clicks never_clicks sdk_chat_down sdk_all_down no_environ (\<lambda>k. k)
        async_openai_args ''ad'' [1, 2, 3, 4, 5] ''facebook'') = Inr [0, 0, 0, 0, 0]"
  by code_simp

theorem predict_clicks_length_order_witness:
  "0 < pa_batch_size async_openai_args \<and>
   pa_provider async_openai_args \<in> {''openai'', ''deepseek''} \<and>
   (\<forall>t p. mock_decide never_clicks t p \<in> {0, 1}) \<and>
   map_sum id snd
     (predict_clicks never_clicks sdk_chat_down sdk_needs_key no_environ (\<lambda>k. 10 - k)
        async_openai_args ''ad'' [1, 2, 3, 4, 5] ''facebook'') = Inr [1, 1, 1, 1, 1] \<and>
   (\<exists>tr ds. predict_clicks never_clicks sdk_chat_down sdk_needs_key no_environ
                (\<lambda>k. 10 - k) async_openai_args ''ad'' [1, 2, 3, 4, 5 :: nat] ''facebook'' =
              Inr (tr, ds) \<and> length ds = 5)"
proof -
  have h1: "0 < pa_batch_size async_openai_args"
    by (simp add: async_openai_args_def)
  have h2: "pa_provider async_openai_args \<in> {''openai'', ''deepseek''}"
    by (simp add: async_openai_args_def)
  have h3: "\<forall>t p. mock_decide never_clicks t p \<in> {0, 1}"
    by (simp add: never_clicks_def)
  from predict_clicks_length_order
    [OF h1 h2 h3, of sdk_chat_down sdk_needs_key no_environ "\<lambda>k. 10 - k"
      "''ad''" "[1, 2, 3, 4, 5]" "''facebook''"]
  have "\<exists>tr ds. predict_clicks never_clicks sdk_chat_down sdk_needs_key no_environ
                (\<lambda>k. 10 - k) async_openai_args ''ad'' [1, 2, 3, 4, 5 :: nat] ''facebook'' =
              Inr (tr, ds) \<and> length ds = 5"
    by auto
  with h1 h2 h3 predict_clicks_five show ?thesis by blast
qed

end
